theory Spec2Isabelle
  imports Main "HOL-Library.Word"
begin

section \<open>Decimal numerals\<close>

text \<open>
  The decimal digits of a natural number. They serialise the 256-bit integers of a
  transfer, and they are what JavaScript prints for a number that holds a safe integer.
\<close>

definition is_digit :: "char \<Rightarrow> bool" where
  "is_digit c \<longleftrightarrow> (48::nat) \<le> of_char c \<and> of_char c \<le> (57::nat)"

definition digit_char :: "nat \<Rightarrow> char" where
  "digit_char d = ''0123456789'' ! d"

definition digit_val :: "char \<Rightarrow> nat" where
  "digit_val c = of_char c - 48"

function show_nat :: "nat \<Rightarrow> string" where
  "show_nat n = (if n < 10 then [digit_char n] else show_nat (n div 10) @ [digit_char (n mod 10)])"
  by pat_completeness auto
termination
  by (relation "measure (\<lambda>n. n)") auto

declare show_nat.simps [simp del]

text \<open>The decimal numeral of an integer, with a minus sign in front when it is negative.\<close>

definition decimal :: "int \<Rightarrow> string" where
  "decimal i = (if i < 0 then CHR ''-'' # show_nat (nat (- i)) else show_nat (nat i))"

text \<open>
  \<open>Number.isSafeInteger\<close>: the integers of magnitude at most \<open>2^53 - 1\<close>, each of
  which a JavaScript number holds exactly.
\<close>

definition is_safe_integer :: "int \<Rightarrow> bool" where
  "is_safe_integer i \<longleftrightarrow> - (2 ^ 53 - 1) \<le> i \<and> i \<le> 2 ^ 53 - 1"

text \<open>
  The text a template literal puts in for an integer-valued number. A safe integer is
  printed as its decimal numeral. A larger number is printed with the shortest digits that
  read back as the same number, padded with zeros (\<open>2^69\<close> as
  \<open>590295810358705700000\<close>), and in exponent form from \<open>10^21\<close> on (\<open>1e+21\<close>);
  that rendering is not spelled out here and is the parameter \<open>render_large\<close>.
\<close>

definition number_to_string :: "(int \<Rightarrow> string) \<Rightarrow> int \<Rightarrow> string" where
  "number_to_string render_large i = (if is_safe_integer i then decimal i else render_large i)"

section \<open>The relayer registry and its dispatch (relayer/src/map.ts)\<close>

text \<open>
  The five relayer service classes that \<open>map.ts\<close> imports. Their bodies are not part
  of the sources; the registry only ever stores and returns the class itself.
\<close>

datatype RelayerService =
    ArbitrumRelayerService
  | BobaRelayerService
  | EthereumRelayerService
  | OptimismRelayerService
  | PolygonZKEvmRelayerService

text \<open>
  \<open>SERVICES\<close> is an object literal keyed by network identifier. It is kept as an
  association list in the order of the source; no key occurs twice, so the order plays no
  part in a lookup.
\<close>

definition SERVICES :: "(int \<times> RelayerService) list" where
  "SERVICES =
    [ (42161, ArbitrumRelayerService),
      (421613, ArbitrumRelayerService),
      (412346, ArbitrumRelayerService),
      (2888, BobaRelayerService),
      (288, BobaRelayerService),
      (10, OptimismRelayerService),
      (420, OptimismRelayerService),
      (17, OptimismRelayerService),
      (1, EthereumRelayerService),
      (5, EthereumRelayerService),
      (1337, EthereumRelayerService),
      (1101, PolygonZKEvmRelayerService),
      (1442, PolygonZKEvmRelayerService),
      (1001, PolygonZKEvmRelayerService) ]"

text \<open>\<open>SERVICES[networkId]\<close>: the class stored under the key, or \<open>undefined\<close>.\<close>

definition SERVICES_lookup :: "int \<Rightarrow> RelayerService option" where
  "SERVICES_lookup networkId = map_of SERVICES networkId"

text \<open>
  A thrown error object: the name of its class and its message. \<open>new Error(message)\<close>
  makes an object of the built-in class \<open>Error\<close>, the only class of error that
  \<open>map.ts\<close> mentions.
\<close>

datatype js_error = Thrown (error_class: string) (error_message: string)

definition new_Error :: "string \<Rightarrow> js_error" where
  "new_Error message = Thrown ''Error'' message"

text \<open>
  \<open>createRelayer(networkId, args)\<close>. A network identifier is an integer, so the
  parameter of type \<open>number\<close> is an \<open>int\<close> here. A class is always truthy and
  \<open>undefined\<close> is not, so the \<open>if (Relayer)\<close> test is the test whether the lookup
  found an entry. The constructors of the service classes are not in the sources:
  \<open>new Relayer(...args)\<close> is the parameter \<open>new\<close>, applied to the class that was
  found and to the arguments.
\<close>

definition createRelayer ::
    "(int \<Rightarrow> string) \<Rightarrow> (RelayerService \<Rightarrow> 'args \<Rightarrow> 'relayer) \<Rightarrow> int \<Rightarrow> 'args \<Rightarrow>
     js_error + 'relayer" where
  "createRelayer render_large new networkId args =
    (case SERVICES_lookup networkId of
       Some Relayer \<Rightarrow> Inr (new Relayer args)
     | None \<Rightarrow>
         Inl (new_Error
           (''No relayer program found for '' @ number_to_string render_large networkId @ ''!'')))"

text \<open>
  An operation fails with an error of a given class when it throws an error object of
  that class.
\<close>

definition fails_with :: "string \<Rightarrow> js_error + 'a \<Rightarrow> bool" where
  "fails_with cls outcome \<longleftrightarrow>
     (case outcome of Inl e \<Rightarrow> error_class e = cls | Inr result \<Rightarrow> False)"

text \<open>The network identifiers registered for one service class, in source order.\<close>

definition networks_of :: "RelayerService \<Rightarrow> int list" where
  "networks_of service = map fst (filter (\<lambda>entry. snd entry = service) SERVICES)"

text \<open>
  The three environments of a chain family. A network identifier distinguishes one chain
  in one environment, so a family that has an entry for every environment has entries
  under three different network identifiers. The registry itself does not say which
  identifier belongs to which environment.
\<close>

datatype environment = Mainnet | PublicTestnet | LocalDevnet

definition entry_for_every_environment :: "RelayerService \<Rightarrow> bool" where
  "entry_for_every_environment service \<longleftrightarrow>
    (\<exists>network :: environment \<Rightarrow> int.
       inj network \<and> (\<forall>e. SERVICES_lookup (network e) = Some service))"

section \<open>The validator of unsigned numerals (frontend/src/validation/validators.ts)\<close>

text \<open>
  \<open>isUnsignedNumeric\<close> tests its argument against the regular expression
  \<open>/^\d*\.?\d*$/\<close>. The pattern is anchored at both ends and has no flags, so the test
  succeeds exactly when the whole string matches \<open>\d*\.?\d*\<close>; \<open>\d\<close> stands for the
  ten digits \<open>0\<close> to \<open>9\<close> and \<open>\.\<close> for the point. Regular expressions are a
  datatype; \<open>Never\<close>, \<open>Empty\<close> and \<open>Alt\<close> do not occur in the pattern and serve the
  matcher, which consumes the string one character at a time by taking the derivative of
  the expression. A character that is neither a digit nor the point fails the match
  whatever its code is, so the characters of HOL stand for those of a JavaScript string.
\<close>

datatype regex =
    Never
  | Empty
  | Digit
  | Literal char
  | Alt regex regex
  | Seq regex regex
  | Star regex
  | Optional regex

primrec nullable :: "regex \<Rightarrow> bool" where
  "nullable Never = False"
| "nullable Empty = True"
| "nullable Digit = False"
| "nullable (Literal a) = False"
| "nullable (Alt r s) = (nullable r \<or> nullable s)"
| "nullable (Seq r s) = (nullable r \<and> nullable s)"
| "nullable (Star r) = True"
| "nullable (Optional r) = True"

primrec deriv :: "char \<Rightarrow> regex \<Rightarrow> regex" where
  "deriv c Never = Never"
| "deriv c Empty = Never"
| "deriv c Digit = (if is_digit c then Empty else Never)"
| "deriv c (Literal a) = (if c = a then Empty else Never)"
| "deriv c (Alt r s) = Alt (deriv c r) (deriv c s)"
| "deriv c (Seq r s) =
     (if nullable r then Alt (Seq (deriv c r) s) (deriv c s) else Seq (deriv c r) s)"
| "deriv c (Star r) = Seq (deriv c r) (Star r)"
| "deriv c (Optional r) = deriv c r"

primrec matches :: "regex \<Rightarrow> string \<Rightarrow> bool" where
  "matches r [] = nullable r"
| "matches r (c # cs) = matches (deriv c r) cs"

text \<open>The pattern \<open>\d*\.?\d*\<close>.\<close>

definition UNSIGNED_NUMERIC :: regex where
  "UNSIGNED_NUMERIC = Seq (Star Digit) (Seq (Optional (Literal CHR ''.'')) (Star Digit))"

definition isUnsignedNumeric :: "string \<Rightarrow> bool" where
  "isUnsignedNumeric v = matches UNSIGNED_NUMERIC v"

text \<open>
  What a regular expression denotes: the set of the strings it matches. The matcher is
  shown below to decide membership in this set.
\<close>

inductive_set lang_star :: "string set \<Rightarrow> string set" for A :: "string set" where
  star_nil: "[] \<in> lang_star A"
| star_app: "u \<in> A \<Longrightarrow> v \<in> lang_star A \<Longrightarrow> u @ v \<in> lang_star A"

definition lang_conc :: "string set \<Rightarrow> string set \<Rightarrow> string set" where
  "lang_conc A B = {u @ v | u v. u \<in> A \<and> v \<in> B}"

primrec lang :: "regex \<Rightarrow> string set" where
  "lang Never = {}"
| "lang Empty = {[]}"
| "lang Digit = {[c] | c. is_digit c}"
| "lang (Literal a) = {[a]}"
| "lang (Alt r s) = lang r \<union> lang s"
| "lang (Seq r s) = lang_conc (lang r) (lang s)"
| "lang (Star r) = lang_star (lang r)"
| "lang (Optional r) = insert [] (lang r)"

text \<open>
  The description in words: the string consists of digits and points only, and holds at
  most one point.
\<close>

definition digits_with_at_most_one_point :: "string \<Rightarrow> bool" where
  "digits_with_at_most_one_point s \<longleftrightarrow>
     (\<forall>c\<in>set s. is_digit c \<or> c = CHR ''.'') \<and> length (filter (\<lambda>c. c = CHR ''.'') s) \<le> 1"

section \<open>The transfer and its serialisation\<close>

text \<open>
  The class \<open>Transfer\<close> is exercised by the test file of the sources, but the class
  itself and the gateways it calls are not among them. The definitions of this section
  follow the specification (its sections 3, 4.1 and 6); the field names of the chain and
  token descriptors and the order of the gateway's arguments are those the tests use.
\<close>

type_synonym EthereumAddress = string
type_synonym TransactionHash = string
type_synonym UInt256 = "256 word"

text \<open>
  Modelled from the spec: the chain, token and step descriptors and the two metadata
  records of section 3, whose type declarations are missing from the sources. The fields
  \<open>identifier\<close> of a chain, of a step and of the request metadata carry a prefix that
  tells them apart.
\<close>

record Chain =
  chain_identifier :: int
  rpcUrl :: string
  requestManagerAddress :: EthereumAddress
  fillManagerAddress :: EthereumAddress

record Token =
  address :: EthereumAddress
  decimals :: nat

record Step =
  step_identifier :: string

record RequestMetadata =
  requestAccount :: "EthereumAddress option"
  transactionHash :: "TransactionHash option"
  request_identifier :: "UInt256 option"

record RequestFillMetadata =
  fillTransactionHash :: TransactionHash
  fillerAddress :: EthereumAddress

text \<open>
  Modelled from the spec: the entity \<open>Transfer\<close> of section 3, whose class is missing
  from the sources. The 256-bit unsigned integers are words of 256 bits; a metadata field
  that is not set yet is \<open>None\<close>.
\<close>

record Transfer =
  amount :: UInt256
  sourceChain :: Chain
  sourceToken :: Token
  targetChain :: Chain
  targetToken :: Token
  targetAccount :: EthereumAddress
  validityPeriod :: UInt256
  fees :: UInt256
  requestMetadata :: RequestMetadata
  requestFillMetadata :: "RequestFillMetadata option"
  steps :: "Step list"

text \<open>
  Modelled from the spec: the serialised transfer format of section 6, a flat record of
  every field of the entity with the 256-bit integers as decimal strings. The type of the
  encoded data is missing from the sources.
\<close>

record RequestMetadataData =
  requestAccount :: "EthereumAddress option"
  transactionHash :: "TransactionHash option"
  request_identifier :: "string option"

record TransferData =
  amount :: string
  sourceChain :: Chain
  sourceToken :: Token
  targetChain :: Chain
  targetToken :: Token
  targetAccount :: EthereumAddress
  validityPeriod :: string
  fees :: string
  requestMetadata :: RequestMetadataData
  requestFillMetadata :: "RequestFillMetadata option"
  steps :: "Step list"

text \<open>
  Modelled from the spec: a 256-bit integer is written as its decimal digits. Reading one
  back accepts a non-empty string of digits and checks the bound explicitly, so a numeral
  of \<open>2^256\<close> or more is refused instead of wrapping around. The class \<open>UInt256\<close>
  is missing from the sources.
\<close>

definition encode_UInt256 :: "UInt256 \<Rightarrow> string" where
  "encode_UInt256 w = show_nat (unat w)"

definition parse_nat :: "string \<Rightarrow> nat option" where
  "parse_nat s =
    (if s \<noteq> [] \<and> list_all is_digit s
     then Some (foldl (\<lambda>acc c. 10 * acc + digit_val c) 0 s)
     else None)"

definition decode_UInt256 :: "string \<Rightarrow> UInt256 option" where
  "decode_UInt256 s =
    (case parse_nat s of
       None \<Rightarrow> None
     | Some n \<Rightarrow> if n < 2 ^ 256 then Some (word_of_nat n) else None)"

text \<open>
  Modelled from the spec: the identifiers for which \<open>getStepMethods\<close> holds an executor,
  one for each of the three step operations of section 4.1, in the order a transfer runs
  them. The method \<open>getStepMethods\<close> is missing from the sources.
\<close>

definition STEP_IDENTIFIERS :: "string list" where
  "STEP_IDENTIFIERS = [''sendRequestTransaction'', ''waitForRequestEvent'', ''waitForFulfillment'']"

text \<open>
  Modelled from the spec: the invariant of section 3 on the steps of a transfer, which the
  constructor checks once: the sequence is not empty and every identifier has an executor.
\<close>

definition valid_steps :: "Step list \<Rightarrow> bool" where
  "valid_steps sts \<longleftrightarrow> sts \<noteq> [] \<and> list_all (\<lambda>s. step_identifier s \<in> set STEP_IDENTIFIERS) sts"

definition valid_Transfer :: "Transfer \<Rightarrow> bool" where
  "valid_Transfer t \<longleftrightarrow> valid_steps (Transfer.steps t)"

text \<open>Modelled from the spec: \<open>encode()\<close> of section 4.1, missing from the sources.\<close>

definition encode_RequestMetadata :: "RequestMetadata \<Rightarrow> RequestMetadataData" where
  "encode_RequestMetadata m =
    \<lparr> RequestMetadataData.requestAccount = RequestMetadata.requestAccount m,
      transactionHash = RequestMetadata.transactionHash m,
      request_identifier = map_option encode_UInt256 (RequestMetadata.request_identifier m) \<rparr>"

definition encode :: "Transfer \<Rightarrow> TransferData" where
  "encode t =
    \<lparr> TransferData.amount = encode_UInt256 (Transfer.amount t),
      sourceChain = Transfer.sourceChain t,
      sourceToken = Transfer.sourceToken t,
      targetChain = Transfer.targetChain t,
      targetToken = Transfer.targetToken t,
      targetAccount = Transfer.targetAccount t,
      validityPeriod = encode_UInt256 (Transfer.validityPeriod t),
      fees = encode_UInt256 (Transfer.fees t),
      requestMetadata = encode_RequestMetadata (Transfer.requestMetadata t),
      requestFillMetadata = Transfer.requestFillMetadata t,
      steps = Transfer.steps t \<rparr>"

text \<open>
  Modelled from the spec: the reconstruction of a transfer from its encoded form
  (section 4.1), missing from the sources. It fails, with \<open>None\<close>, when a decimal string
  does not read back as a 256-bit integer or when the steps break their invariant.
\<close>

definition decode_RequestMetadata :: "RequestMetadataData \<Rightarrow> RequestMetadata option" where
  "decode_RequestMetadata m =
    (case RequestMetadataData.request_identifier m of
       None \<Rightarrow>
         Some \<lparr> RequestMetadata.requestAccount = RequestMetadataData.requestAccount m,
                transactionHash = RequestMetadataData.transactionHash m,
                request_identifier = None \<rparr>
     | Some s \<Rightarrow>
         (case decode_UInt256 s of
            None \<Rightarrow> None
          | Some i \<Rightarrow>
              Some \<lparr> RequestMetadata.requestAccount = RequestMetadataData.requestAccount m,
                     transactionHash = RequestMetadataData.transactionHash m,
                     request_identifier = Some i \<rparr>))"

definition decode :: "TransferData \<Rightarrow> Transfer option" where
  "decode d =
    (case (decode_UInt256 (TransferData.amount d),
           decode_UInt256 (TransferData.validityPeriod d),
           decode_UInt256 (TransferData.fees d),
           decode_RequestMetadata (TransferData.requestMetadata d)) of
       (Some a, Some v, Some f, Some m) \<Rightarrow>
         if valid_steps (TransferData.steps d)
         then Some \<lparr> Transfer.amount = a,
                     sourceChain = TransferData.sourceChain d,
                     sourceToken = TransferData.sourceToken d,
                     targetChain = TransferData.targetChain d,
                     targetToken = TransferData.targetToken d,
                     targetAccount = TransferData.targetAccount d,
                     validityPeriod = v,
                     fees = f,
                     requestMetadata = m,
                     requestFillMetadata = TransferData.requestFillMetadata d,
                     steps = TransferData.steps d \<rparr>
         else None
     | _ \<Rightarrow> None)"

section \<open>Submitting the request transaction\<close>

text \<open>
  Modelled from the spec: one invocation of the request-manager gateway of section 6,
  \<open>sendRequestTransaction(signer, amount, targetChainId, requestManagerAddress,
  sourceTokenAddr, targetTokenAddr, targetAccount, validityPeriod, fees)\<close>, with its
  arguments in this order. The gateway module is missing from the sources; the test
  file replaces it by a mock and inspects the arguments of its calls.
\<close>

datatype 'signer gateway_call =
  SendRequestTransaction 'signer UInt256 int EthereumAddress EthereumAddress EthereumAddress
    EthereumAddress UInt256 UInt256

text \<open>
  Modelled from the spec: \<open>sendRequestTransaction(signer, signerAddress)\<close> of section 4.1,
  missing from the sources. The state is the transfer together with the list of the
  gateway invocations made so far. The gateway is a parameter: it answers an invocation
  with the transaction hash (\<open>Inr\<close>) or rejects with an error (\<open>Inl\<close>), which propagates
  to the caller and leaves the metadata as they were.
\<close>

definition sendRequestTransaction ::
    "('signer gateway_call \<Rightarrow> 'e + TransactionHash) \<Rightarrow> 'signer \<Rightarrow> EthereumAddress \<Rightarrow>
     Transfer \<times> 'signer gateway_call list \<Rightarrow> ('e + unit) \<times> Transfer \<times> 'signer gateway_call list" where
  "sendRequestTransaction gateway signer signerAddress st =
    (let (t, calls) = st;
         call = SendRequestTransaction signer
                  (Transfer.amount t)
                  (chain_identifier (Transfer.targetChain t))
                  (requestManagerAddress (Transfer.sourceChain t))
                  (address (Transfer.sourceToken t))
                  (address (Transfer.targetToken t))
                  (Transfer.targetAccount t)
                  (Transfer.validityPeriod t)
                  (Transfer.fees t)
     in case gateway call of
          Inl e \<Rightarrow> (Inl e, t, calls @ [call])
        | Inr hash \<Rightarrow>
            (Inr (),
             t\<lparr> Transfer.requestMetadata :=
                  (Transfer.requestMetadata t)
                    \<lparr> RequestMetadata.requestAccount := Some signerAddress,
                      RequestMetadata.transactionHash := Some hash \<rparr> \<rparr>,
             calls @ [call]))"

text \<open>
  The transfer of the test \<open>calls the transfer function on the request manager
  contract\<close>: amount 1, target chain 2, validity period 3, fees 4, and the addresses the
  test expects in the call. Fields that the test leaves to its generators are filled in.
\<close>

definition SCENARIO :: Transfer where
  "SCENARIO =
    \<lparr> Transfer.amount = 1,
      sourceChain = \<lparr> chain_identifier = 1, rpcUrl = ''https://source.rpc'',
                      requestManagerAddress = ''0xRequestManager'',
                      fillManagerAddress = ''0xSourceFillManager'' \<rparr>,
      sourceToken = \<lparr> address = ''0xSourceToken'', decimals = 18 \<rparr>,
      targetChain = \<lparr> chain_identifier = 2, rpcUrl = ''https://target.rpc'',
                      requestManagerAddress = ''0xTargetRequestManager'',
                      fillManagerAddress = ''0xFillManager'' \<rparr>,
      targetToken = \<lparr> address = ''0xTargetToken'', decimals = 18 \<rparr>,
      targetAccount = ''0xTargetAccount'',
      validityPeriod = 3,
      fees = 4,
      requestMetadata = \<lparr> RequestMetadata.requestAccount = None, transactionHash = None,
                          request_identifier = None \<rparr>,
      requestFillMetadata = None,
      steps = map (\<lambda>i. \<lparr> step_identifier = i \<rparr>) STEP_IDENTIFIERS \<rparr>"

section \<open>Properties of the relayer registry\<close>

lemma SERVICES_keys_distinct: "distinct (map fst SERVICES)"
  by (simp add: SERVICES_def)

lemma SERVICES_lookup_Some: "SERVICES_lookup n = Some R \<longleftrightarrow> (n, R) \<in> set SERVICES"
  unfolding SERVICES_lookup_def using SERVICES_keys_distinct by simp

lemma SERVICES_lookup_None: "SERVICES_lookup n = None \<longleftrightarrow> n \<notin> set (map fst SERVICES)"
  unfolding SERVICES_lookup_def by (simp add: map_of_eq_None_iff)

text \<open>
  Claim C2, as stated, fails in the class of the error: for the unregistered identifier
  999999 \<open>createRelayer\<close> does not fail with an \<open>UnsupportedNetworkError\<close>. The error
  it throws is a plain \<open>Error\<close>.
\<close>

theorem createRelayer_error_counterexample:
  "\<not> fails_with ''UnsupportedNetworkError''
       (createRelayer (\<lambda>i. []) (\<lambda>Relayer args. (Relayer, args)) 999999 ''0xHash'')"
  by (simp add: createRelayer_def SERVICES_lookup_def SERVICES_def fails_with_def new_Error_def)

text \<open>
  Claim C2, amended. For a network identifier that has no entry in the registry, 999999
  among them, \<open>createRelayer\<close> fails with a plain \<open>Error\<close>; when the identifier is a
  safe integer, the message of the error is \<open>No relayer program found for\<close>, the decimal
  numeral of the identifier and an exclamation mark. For an identifier that has an entry,
  it returns a new instance of the class stored there.
\<close>

theorem createRelayer_dispatch:
  "(networkId \<notin> set (map fst SERVICES) \<longrightarrow>
      fails_with ''Error'' (createRelayer render_large new networkId args)
      \<and> (is_safe_integer networkId \<longrightarrow>
            createRelayer render_large new networkId args =
              Inl (new_Error (''No relayer program found for '' @ decimal networkId @ ''!''))))
   \<and> (\<forall>Relayer. (networkId, Relayer) \<in> set SERVICES \<longrightarrow>
        createRelayer render_large new networkId args = Inr (new Relayer args))
   \<and> 999999 \<notin> set (map fst SERVICES)"
proof (intro conjI allI impI)
  assume "networkId \<notin> set (map fst SERVICES)"
  then have "SERVICES_lookup networkId = None"
    by (simp add: SERVICES_lookup_None)
  then show "fails_with ''Error'' (createRelayer render_large new networkId args)"
    by (simp add: createRelayer_def fails_with_def new_Error_def)
next
  assume "networkId \<notin> set (map fst SERVICES)" and "is_safe_integer networkId"
  then have "SERVICES_lookup networkId = None"
    and "number_to_string render_large networkId = decimal networkId"
    by (simp_all add: SERVICES_lookup_None number_to_string_def)
  then show "createRelayer render_large new networkId args =
      Inl (new_Error (''No relayer program found for '' @ decimal networkId @ ''!''))"
    by (simp add: createRelayer_def)
next
  fix Relayer
  assume "(networkId, Relayer) \<in> set SERVICES"
  then have "SERVICES_lookup networkId = Some Relayer"
    by (simp add: SERVICES_lookup_Some)
  then show "createRelayer render_large new networkId args = Inr (new Relayer args)"
    by (simp add: createRelayer_def)
next
  show "999999 \<notin> set (map fst SERVICES)"
    by (simp add: SERVICES_def)
qed

text \<open>
  The dispatch at the unregistered safe integer 999999 and at the registered identifier
  10, with a constructor that records the class and the arguments it was given.
\<close>

theorem createRelayer_dispatch_witness:
  "is_safe_integer 999999
   \<and> createRelayer (\<lambda>i. []) (\<lambda>Relayer args. (Relayer, args)) 999999 ''0xHash''
     = Inl (Thrown ''Error'' ''No relayer program found for 999999!'')
   \<and> fails_with ''Error''
        (createRelayer (\<lambda>i. []) (\<lambda>Relayer args. (Relayer, args)) 999999 ''0xHash'')
   \<and> createRelayer (\<lambda>i. []) (\<lambda>Relayer args. (Relayer, args)) 10 ''0xHash''
     = Inr (OptimismRelayerService, ''0xHash'')"
proof -
  have unregistered: "(999999::int) \<notin> set (map fst SERVICES)"
    by (simp add: SERVICES_def)
  have safe: "is_safe_integer 999999"
    by (simp add: is_safe_integer_def)
  have registered: "(10, OptimismRelayerService) \<in> set SERVICES"
    by (simp add: SERVICES_def)
  have message: "decimal 999999 = ''999999''"
    by (simp add: decimal_def digit_char_def show_nat.simps)
  from unregistered safe registered message
    createRelayer_dispatch [of 999999 "\<lambda>i. []" "\<lambda>Relayer args. (Relayer, args)" "''0xHash''"]
    createRelayer_dispatch [of 10 "\<lambda>i. []" "\<lambda>Relayer args. (Relayer, args)" "''0xHash''"]
  show ?thesis by (simp add: new_Error_def fails_with_def)
qed

lemma networks_of_services:
  "networks_of ArbitrumRelayerService = [42161, 421613, 412346]"
  "networks_of BobaRelayerService = [2888, 288]"
  "networks_of OptimismRelayerService = [10, 420, 17]"
  "networks_of EthereumRelayerService = [1, 5, 1337]"
  "networks_of PolygonZKEvmRelayerService = [1101, 1442, 1001]"
  by (simp_all add: networks_of_def SERVICES_def)

lemma SERVICES_lookup_networks_of:
  "SERVICES_lookup n = Some R \<longleftrightarrow> n \<in> set (networks_of R)"
  unfolding SERVICES_lookup_Some networks_of_def by force

text \<open>
  A family has an entry for every environment exactly when three different network
  identifiers are registered for it.
\<close>

lemma entry_for_every_environment_iff:
  "entry_for_every_environment R \<longleftrightarrow>
     (\<exists>a b c. distinct [a, b, c] \<and> set [a, b, c] \<subseteq> set (networks_of R))"
proof
  assume "entry_for_every_environment R"
  then obtain f :: "environment \<Rightarrow> int"
    where f: "inj f" "\<forall>e. SERVICES_lookup (f e) = Some R"
    unfolding entry_for_every_environment_def by blast
  have "distinct [f Mainnet, f PublicTestnet, f LocalDevnet]"
    using f(1) by (auto dest: injD)
  moreover have "set [f Mainnet, f PublicTestnet, f LocalDevnet] \<subseteq> set (networks_of R)"
    using f(2) by (simp add: SERVICES_lookup_networks_of)
  ultimately show "\<exists>a b c. distinct [a, b, c] \<and> set [a, b, c] \<subseteq> set (networks_of R)"
    by blast
next
  assume "\<exists>a b c. distinct [a, b, c] \<and> set [a, b, c] \<subseteq> set (networks_of R)"
  then obtain a b c where abc: "distinct [a, b, c]" "set [a, b, c] \<subseteq> set (networks_of R)"
    by blast
  define f where "f = (\<lambda>e. case e of Mainnet \<Rightarrow> a | PublicTestnet \<Rightarrow> b | LocalDevnet \<Rightarrow> c)"
  have "inj f"
    using abc(1) by (auto simp: inj_def f_def split: environment.splits)
  moreover have "\<forall>e. SERVICES_lookup (f e) = Some R"
    using abc(2) by (auto simp: f_def SERVICES_lookup_networks_of split: environment.splits)
  ultimately show "entry_for_every_environment R"
    unfolding entry_for_every_environment_def by blast
qed

text \<open>
  Claim C7, as stated, fails for Boba: the registry holds only the two identifiers 2888
  and 288 for \<open>BobaRelayerService\<close>, so its three environments cannot each have an
  entry.
\<close>

theorem registry_boba_counterexample:
  "\<not> entry_for_every_environment BobaRelayerService"
  unfolding entry_for_every_environment_iff networks_of_services by auto

text \<open>
  Claim C7, amended. The registry holds exactly three network identifiers, enough for one
  entry per environment, for each of Arbitrum, Optimism, Ethereum and Polygon zkEVM, and
  exactly the two identifiers 2888 and 288 for Boba.
\<close>

theorem registry_networks:
  "networks_of ArbitrumRelayerService = [42161, 421613, 412346]
   \<and> networks_of OptimismRelayerService = [10, 420, 17]
   \<and> networks_of EthereumRelayerService = [1, 5, 1337]
   \<and> networks_of PolygonZKEvmRelayerService = [1101, 1442, 1001]
   \<and> networks_of BobaRelayerService = [2888, 288]
   \<and> entry_for_every_environment ArbitrumRelayerService
   \<and> entry_for_every_environment OptimismRelayerService
   \<and> entry_for_every_environment EthereumRelayerService
   \<and> entry_for_every_environment PolygonZKEvmRelayerService"
  unfolding entry_for_every_environment_iff networks_of_services
  apply (intro conjI refl)
     apply (rule exI [of _ 42161], rule exI [of _ 421613], rule exI [of _ 412346], simp)
    apply (rule exI [of _ 10], rule exI [of _ 420], rule exI [of _ 17], simp)
   apply (rule exI [of _ 1], rule exI [of _ 5], rule exI [of _ 1337], simp)
  apply (rule exI [of _ 1101], rule exI [of _ 1442], rule exI [of _ 1001], simp)
  done

section \<open>Properties of the validator\<close>

subsection \<open>The matcher decides the language of an expression\<close>

lemma nullable_iff: "nullable r \<longleftrightarrow> [] \<in> lang r"
  by (induction r) (auto simp: lang_conc_def intro: lang_star.star_nil)

lemma Cons_in_lang_conc:
  "c # w \<in> lang_conc A B \<longleftrightarrow>
     (\<exists>u v. w = u @ v \<and> c # u \<in> A \<and> v \<in> B) \<or> ([] \<in> A \<and> c # w \<in> B)"
  unfolding lang_conc_def by (auto simp: Cons_eq_append_conv)

lemma lang_star_ConsD:
  "x \<in> lang_star A \<Longrightarrow> x = c # w \<Longrightarrow>
     \<exists>u v. w = u @ v \<and> c # u \<in> A \<and> v \<in> lang_star A"
proof (induction rule: lang_star.induct)
  case star_nil
  then show ?case by simp
next
  case (star_app u v)
  show ?case
  proof (cases u)
    case Nil
    with star_app show ?thesis by simp
  next
    case (Cons a u')
    with star_app.prems have "a = c" "w = u' @ v" by simp_all
    with Cons star_app.hyps show ?thesis by blast
  qed
qed

lemma Cons_in_lang_star:
  "c # w \<in> lang_star A \<longleftrightarrow> (\<exists>u v. w = u @ v \<and> c # u \<in> A \<and> v \<in> lang_star A)"
proof
  assume "c # w \<in> lang_star A"
  then show "\<exists>u v. w = u @ v \<and> c # u \<in> A \<and> v \<in> lang_star A"
    by (rule lang_star_ConsD) simp
next
  assume "\<exists>u v. w = u @ v \<and> c # u \<in> A \<and> v \<in> lang_star A"
  then obtain u v where "w = u @ v" "c # u \<in> A" "v \<in> lang_star A" by blast
  then show "c # w \<in> lang_star A"
    using lang_star.star_app [of "c # u" A v] by simp
qed

lemma lang_deriv: "w \<in> lang (deriv c r) \<longleftrightarrow> c # w \<in> lang r"
proof (induction r arbitrary: w)
  case (Seq r s)
  then show ?case
    by (auto simp: Cons_in_lang_conc nullable_iff) (auto simp: lang_conc_def)
next
  case (Star r)
  then show ?case
    by (auto simp: Cons_in_lang_star) (auto simp: lang_conc_def)
qed auto

lemma matches_iff: "matches r w \<longleftrightarrow> w \<in> lang r"
  by (induction w arbitrary: r) (simp_all add: nullable_iff lang_deriv)

subsection \<open>The language of the pattern\<close>

lemma lang_star_Digit: "w \<in> lang_star (lang Digit) \<longleftrightarrow> (\<forall>c\<in>set w. is_digit c)"
proof
  assume "w \<in> lang_star (lang Digit)"
  then show "\<forall>c\<in>set w. is_digit c"
    by (induction rule: lang_star.induct) auto
next
  assume "\<forall>c\<in>set w. is_digit c"
  then show "w \<in> lang_star (lang Digit)"
  proof (induction w)
    case Nil
    show ?case by (rule lang_star.star_nil)
  next
    case (Cons a w)
    then have "[a] \<in> lang Digit" "w \<in> lang_star (lang Digit)" by simp_all
    then have "[a] @ w \<in> lang_star (lang Digit)" by (rule lang_star.star_app)
    then show ?case by simp
  qed
qed

lemma point_not_digit: "\<not> is_digit CHR ''.''"
  by (simp add: is_digit_def)

lemma lang_conc_optional:
  "w \<in> lang_conc D (lang_conc (insert [] {[a]}) D) \<longleftrightarrow>
     (\<exists>ds es. ds \<in> D \<and> es \<in> D \<and> (w = ds @ es \<or> w = ds @ a # es))"
proof
  assume "w \<in> lang_conc D (lang_conc (insert [] {[a]}) D)"
  then obtain ds p es where "w = ds @ p @ es" "ds \<in> D" "p = [] \<or> p = [a]" "es \<in> D"
    unfolding lang_conc_def by auto
  then show "\<exists>ds es. ds \<in> D \<and> es \<in> D \<and> (w = ds @ es \<or> w = ds @ a # es)"
    by (metis append_Cons append_Nil)
next
  assume "\<exists>ds es. ds \<in> D \<and> es \<in> D \<and> (w = ds @ es \<or> w = ds @ a # es)"
  then obtain ds es where D: "ds \<in> D" "es \<in> D" and w: "w = ds @ es \<or> w = ds @ a # es"
    by blast
  from w show "w \<in> lang_conc D (lang_conc (insert [] {[a]}) D)"
  proof
    assume "w = ds @ es"
    then have "w = ds @ ([] @ es)" by simp
    with D show ?thesis unfolding lang_conc_def by blast
  next
    assume "w = ds @ a # es"
    then have "w = ds @ ([a] @ es)" by simp
    with D show ?thesis unfolding lang_conc_def by blast
  qed
qed

lemma lang_UNSIGNED_NUMERIC:
  "w \<in> lang UNSIGNED_NUMERIC \<longleftrightarrow>
     (\<exists>ds es. (\<forall>c\<in>set ds. is_digit c) \<and> (\<forall>c\<in>set es. is_digit c) \<and>
        (w = ds @ es \<or> w = ds @ CHR ''.'' # es))"
proof -
  let ?D = "lang_star (lang Digit)"
  have "lang UNSIGNED_NUMERIC = lang_conc ?D (lang_conc (insert [] {[CHR ''.'']}) ?D)"
    by (simp add: UNSIGNED_NUMERIC_def)
  then show ?thesis
    by (simp only: lang_conc_optional lang_star_Digit)
qed

lemma digits_hold_no_point:
  "\<forall>c\<in>set s. is_digit c \<Longrightarrow> filter (\<lambda>c. c = CHR ''.'') s = []"
  by (auto simp: filter_empty_conv point_not_digit)

text \<open>
  Claim C10. \<open>isUnsignedNumeric\<close> returns true for a string exactly when the string
  consists of digits with at most one decimal point; the empty string and the lone point
  are among the strings it accepts.
\<close>

theorem isUnsignedNumeric_iff:
  "(isUnsignedNumeric s \<longleftrightarrow> digits_with_at_most_one_point s)
   \<and> isUnsignedNumeric [] \<and> isUnsignedNumeric ''.''"
proof (intro conjI)
  show "isUnsignedNumeric s \<longleftrightarrow> digits_with_at_most_one_point s"
  proof
    assume "isUnsignedNumeric s"
    then obtain ds es where d: "\<forall>c\<in>set ds. is_digit c" "\<forall>c\<in>set es. is_digit c"
      and s: "s = ds @ es \<or> s = ds @ CHR ''.'' # es"
      unfolding isUnsignedNumeric_def matches_iff lang_UNSIGNED_NUMERIC by blast
    from d have "filter (\<lambda>c. c = CHR ''.'') ds = []" "filter (\<lambda>c. c = CHR ''.'') es = []"
      by (simp_all add: digits_hold_no_point)
    with d s show "digits_with_at_most_one_point s"
      unfolding digits_with_at_most_one_point_def by auto
  next
    assume "digits_with_at_most_one_point s"
    then have chars: "\<forall>c\<in>set s. is_digit c \<or> c = CHR ''.''"
      and count: "length (filter (\<lambda>c. c = CHR ''.'') s) \<le> 1"
      unfolding digits_with_at_most_one_point_def by simp_all
    have "\<exists>ds es. (\<forall>c\<in>set ds. is_digit c) \<and> (\<forall>c\<in>set es. is_digit c) \<and>
        (s = ds @ es \<or> s = ds @ CHR ''.'' # es)"
    proof (cases "CHR ''.'' \<in> set s")
      case False
      with chars have "\<forall>c\<in>set s. is_digit c" by auto
      then have "(\<forall>c\<in>set s. is_digit c) \<and> (\<forall>c\<in>set ([]::string). is_digit c) \<and> s = s @ []"
        by simp
      then show ?thesis by blast
    next
      case True
      then obtain ds es where split: "s = ds @ CHR ''.'' # es"
        by (auto dest: split_list)
      with count have "filter (\<lambda>c. c = CHR ''.'') ds = []" "filter (\<lambda>c. c = CHR ''.'') es = []"
        by simp_all
      then have "CHR ''.'' \<notin> set ds" "CHR ''.'' \<notin> set es"
        by (auto simp: filter_empty_conv)
      with chars split have "\<forall>c\<in>set ds. is_digit c" "\<forall>c\<in>set es. is_digit c"
        by auto
      with split show ?thesis by blast
    qed
    then show "isUnsignedNumeric s"
      unfolding isUnsignedNumeric_def matches_iff lang_UNSIGNED_NUMERIC .
  qed
next
  show "isUnsignedNumeric []"
    by (simp add: isUnsignedNumeric_def UNSIGNED_NUMERIC_def)
next
  show "isUnsignedNumeric ''.''"
    by (simp add: isUnsignedNumeric_def UNSIGNED_NUMERIC_def is_digit_def)
qed

text \<open>
  The validator on \<open>12.5\<close>, which it accepts, and on \<open>1.2.5\<close> and \<open>-1\<close>, which it
  refuses: two points in the one, a character that is neither digit nor point in the
  other.
\<close>

theorem isUnsignedNumeric_iff_witness:
  "isUnsignedNumeric ''12.5'' \<and> digits_with_at_most_one_point ''12.5''
   \<and> \<not> isUnsignedNumeric ''1.2.5'' \<and> \<not> digits_with_at_most_one_point ''1.2.5''
   \<and> \<not> isUnsignedNumeric ''-1'' \<and> \<not> digits_with_at_most_one_point ''-1''"
proof -
  have accepted: "digits_with_at_most_one_point ''12.5''"
    by (simp add: digits_with_at_most_one_point_def is_digit_def)
  have two_points: "\<not> digits_with_at_most_one_point ''1.2.5''"
    by (simp add: digits_with_at_most_one_point_def is_digit_def)
  have minus: "\<not> digits_with_at_most_one_point ''-1''"
    by (simp add: digits_with_at_most_one_point_def is_digit_def)
  from accepted two_points minus
    isUnsignedNumeric_iff [of "''12.5''"] isUnsignedNumeric_iff [of "''1.2.5''"]
    isUnsignedNumeric_iff [of "''-1''"]
  show ?thesis by blast
qed

section \<open>Properties of the transfer\<close>

subsection \<open>Decimal digits read back\<close>

lemma below_ten:
  "d < 10 \<Longrightarrow>
     d = 0 \<or> d = 1 \<or> d = 2 \<or> d = 3 \<or> d = 4 \<or> d = 5 \<or> d = 6 \<or> d = 7 \<or> d = 8 \<or> d = (9::nat)"
  by arith

lemma digit_val_digit_char: "d < 10 \<Longrightarrow> digit_val (digit_char d) = d"
  using below_ten [of d] by (auto simp: digit_val_def digit_char_def)

lemma is_digit_digit_char: "d < 10 \<Longrightarrow> is_digit (digit_char d)"
  using below_ten [of d] by (auto simp: is_digit_def digit_char_def)

lemma show_nat_digits: "list_all is_digit (show_nat n)"
proof (induction n rule: show_nat.induct)
  case (1 n)
  show ?case
  proof (cases "n < 10")
    case True
    then show ?thesis
      by (subst show_nat.simps) (simp add: is_digit_digit_char)
  next
    case False
    with 1 have "list_all is_digit (show_nat (n div 10))" by simp
    moreover have "is_digit (digit_char (n mod 10))"
      by (simp add: is_digit_digit_char)
    ultimately show ?thesis
      using False by (subst show_nat.simps) simp
  qed
qed

lemma show_nat_not_Nil: "show_nat n \<noteq> []"
  by (subst show_nat.simps) simp

lemma read_show_nat: "foldl (\<lambda>acc c. 10 * acc + digit_val c) 0 (show_nat n) = n"
proof (induction n rule: show_nat.induct)
  case (1 n)
  show ?case
  proof (cases "n < 10")
    case True
    then show ?thesis
      by (subst show_nat.simps) (simp add: digit_val_digit_char)
  next
    case False
    with 1 have "foldl (\<lambda>acc c. 10 * acc + digit_val c) 0 (show_nat (n div 10)) = n div 10"
      by simp
    then show ?thesis
      using False by (subst show_nat.simps) (simp add: digit_val_digit_char)
  qed
qed

lemma parse_show_nat: "parse_nat (show_nat n) = Some n"
  by (simp add: parse_nat_def show_nat_not_Nil show_nat_digits read_show_nat)

lemma decode_encode_UInt256: "decode_UInt256 (encode_UInt256 w) = Some w"
proof -
  have "unat w < 2 ^ 256"
    using unsigned_less [of w] by simp
  then show ?thesis
    by (simp add: decode_UInt256_def encode_UInt256_def parse_show_nat)
qed

lemma decode_encode_RequestMetadata:
  "decode_RequestMetadata (encode_RequestMetadata m) = Some m"
  by (cases "RequestMetadata.request_identifier m")
     (simp_all add: decode_RequestMetadata_def encode_RequestMetadata_def decode_encode_UInt256)

lemma valid_SCENARIO: "valid_Transfer SCENARIO"
  by (simp add: valid_Transfer_def valid_steps_def SCENARIO_def STEP_IDENTIFIERS_def)

subsection \<open>Serialisation\<close>

text \<open>
  Claim C1. For every valid transfer, decoding its encoded form succeeds, and encoding the
  decoded transfer again yields the same structured data. Nothing is lost on the way: the
  decoded transfer is the original one, its 256-bit fields included.
\<close>

theorem encode_round_trip:
  "valid_Transfer t \<Longrightarrow>
     (\<exists>t'. decode (encode t) = Some t' \<and> encode t' = encode t \<and> t' = t)"
  by (simp add: decode_def encode_def valid_Transfer_def decode_encode_UInt256
        decode_encode_RequestMetadata)

text \<open>The round trip of the transfer of the test, whose amount is serialised as \<open>1\<close>.\<close>

theorem encode_round_trip_witness:
  "valid_Transfer SCENARIO
   \<and> TransferData.amount (encode SCENARIO) = ''1''
   \<and> decode (encode SCENARIO) = Some SCENARIO
   \<and> map_option encode (decode (encode SCENARIO)) = Some (encode SCENARIO)"
proof -
  have "TransferData.amount (encode SCENARIO) = ''1''"
    by (simp add: encode_def encode_UInt256_def SCENARIO_def digit_char_def show_nat.simps)
  with valid_SCENARIO encode_round_trip [OF valid_SCENARIO] show ?thesis
    by simp
qed

subsection \<open>The request transaction\<close>

text \<open>
  Claim C5. \<open>sendRequestTransaction\<close> invokes the request-manager gateway exactly once:
  the list of invocations grows by the one call that carries the signer, the amount, the
  identifier of the target chain, the request-manager address of the source chain, the
  addresses of the source and target tokens, the target account, the validity period and
  the fees. When the gateway answers with a hash, the operation succeeds and the request
  metadata hold the signer address as request account and that hash as transaction hash.
  This holds for every transfer, the one of the scenario (amount 1, target chain 2,
  validity period 3, fees 4) among them.
\<close>

theorem sendRequestTransaction_gateway:
  "sendRequestTransaction gateway signer signerAddress (t, calls) = (r, t', calls') \<Longrightarrow>
     calls' = calls @
       [SendRequestTransaction signer
          (Transfer.amount t)
          (chain_identifier (Transfer.targetChain t))
          (requestManagerAddress (Transfer.sourceChain t))
          (address (Transfer.sourceToken t))
          (address (Transfer.targetToken t))
          (Transfer.targetAccount t)
          (Transfer.validityPeriod t)
          (Transfer.fees t)]
     \<and> (\<forall>hash. gateway (last calls') = Inr hash \<longrightarrow>
           r = Inr ()
           \<and> RequestMetadata.requestAccount (Transfer.requestMetadata t') = Some signerAddress
           \<and> RequestMetadata.transactionHash (Transfer.requestMetadata t') = Some hash)"
  by (auto simp: sendRequestTransaction_def Let_def split: sum.splits)

text \<open>
  The scenario of the test: the gateway answers \<open>0xHash\<close>, the signer address is
  \<open>0xSigner\<close>, and no invocation has been made before.
\<close>

theorem sendRequestTransaction_gateway_witness:
  "(case sendRequestTransaction (\<lambda>call. Inr ''0xHash'' :: string + TransactionHash)
           ''SIGNER'' ''0xSigner'' (SCENARIO, []) of
      (r, t', calls') \<Rightarrow>
        r = Inr ()
        \<and> calls' = [SendRequestTransaction ''SIGNER'' 1 2 ''0xRequestManager''
                      ''0xSourceToken'' ''0xTargetToken'' ''0xTargetAccount'' 3 4]
        \<and> RequestMetadata.requestAccount (Transfer.requestMetadata t') = Some ''0xSigner''
        \<and> RequestMetadata.transactionHash (Transfer.requestMetadata t') = Some ''0xHash'')"
proof -
  let ?t' = "SCENARIO\<lparr> Transfer.requestMetadata :=
               \<lparr> RequestMetadata.requestAccount = Some ''0xSigner'',
                 transactionHash = Some ''0xHash'',
                 request_identifier = None \<rparr> \<rparr>"
  let ?calls' = "[SendRequestTransaction ''SIGNER'' 1 2 ''0xRequestManager''
                    ''0xSourceToken'' ''0xTargetToken'' ''0xTargetAccount'' 3 4]"
  have run: "sendRequestTransaction (\<lambda>call. Inr ''0xHash'' :: string + TransactionHash)
               ''SIGNER'' ''0xSigner'' (SCENARIO, []) = (Inr (), ?t', ?calls')"
    by (simp add: sendRequestTransaction_def SCENARIO_def)
  from run sendRequestTransaction_gateway [OF run] show ?thesis
    by simp
qed

end
